theory Spec2Isabelle
  imports Complex_Main
begin

section \<open>Advanced basketball statistics: the derivation engine\<close>

text \<open>
  A shallow embedding of \<^verbatim>\<open>src/analytics/advanced_stats.py\<close>: the two box-score
  dataclasses, the formula library of \<^verbatim>\<open>AdvancedStatsCalculator\<close> and its two
  aggregators.

  Conventions of the embedding:
  \<^item> Python's \<^verbatim>\<open>int\<close> is \<^typ>\<open>int\<close>; Python's \<^verbatim>\<open>float\<close> is \<^typ>\<open>rat\<close>, so every
    formula is exact rational arithmetic (rounding, infinities and NaN are outside the model);
    the literal \<^verbatim>\<open>0.44\<close> is the rational \<open>44 / 100\<close>.
  \<^item> \<^verbatim>\<open>Optional[int]\<close> and \<^verbatim>\<open>Optional[float]\<close> are \<open>int option\<close> and \<open>rat option\<close>;
    \<^verbatim>\<open>None\<close> is \<open>None\<close>.
  \<^item> A raised exception is a value: every function that divides returns
    \<open>error + 'a\<close>, with \<open>Inl ZeroDivisionError\<close> where Python's \<^verbatim>\<open>/\<close> would raise.
    Only a division by a non-zero literal (\<^verbatim>\<open>/ 5\<close>, \<^verbatim>\<open>/ 100\<close>) is written with HOL's
    \<open>/\<close>, since it cannot raise.
  \<^item> The result dictionary of an aggregator is a map \<open>string \<rightharpoonup> rat option\<close>, built by
    the same sequence of assignments as in the source.
\<close>

subsection \<open>Record types\<close>

text \<open>
  \<^verbatim>\<open>TeamBoxScore\<close> and \<^verbatim>\<open>PlayerBoxScore\<close> declare the same sixteen raw-count fields,
  in the same order. The player record is the team record extended by the optional
  team-context and opponent-context fields, so that every selector keeps its source name.
\<close>

record TeamBoxScore =
  minutes_played :: rat
  points :: int
  field_goals_made :: int
  field_goals_attempted :: int
  three_pointers_made :: int
  three_pointers_attempted :: int
  free_throws_made :: int
  free_throws_attempted :: int
  offensive_rebounds :: int
  defensive_rebounds :: int
  rebounds :: int
  assists :: int
  steals :: int
  blocks :: int
  turnovers :: int
  personal_fouls :: int

record PlayerBoxScore = TeamBoxScore +
  team_minutes :: rat
  team_field_goals_made :: "int option"
  team_field_goals_attempted :: "int option"
  team_three_pointers_attempted :: "int option"
  team_free_throws_attempted :: "int option"
  team_offensive_rebounds :: "int option"
  team_defensive_rebounds :: "int option"
  team_rebounds :: "int option"
  team_assists :: "int option"
  team_turnovers :: "int option"
  opponent_field_goals_attempted :: "int option"
  opponent_three_pointers_attempted :: "int option"
  opponent_offensive_rebounds :: "int option"
  opponent_defensive_rebounds :: "int option"
  opponent_rebounds :: "int option"

subsection \<open>Python primitives\<close>

datatype error = ZeroDivisionError

text \<open>Python's true division \<^verbatim>\<open>a / b\<close>: raises on a zero divisor.\<close>

definition truediv :: "rat \<Rightarrow> rat \<Rightarrow> error + rat" where
  "truediv a b = (if b = 0 then Inl ZeroDivisionError else Inr (a / b))"

text \<open>Sequencing: an exception raised by the first computation ends the whole one.\<close>

definition bind_error :: "error + 'a \<Rightarrow> ('a \<Rightarrow> error + 'b) \<Rightarrow> error + 'b" where
  "bind_error r f = (case r of Inl e \<Rightarrow> Inl e | Inr v \<Rightarrow> f v)"

text \<open>\<^verbatim>\<open>return a / b\<close> in a function whose result type is \<^verbatim>\<open>Optional[float]\<close>.\<close>

definition return_div :: "rat \<Rightarrow> rat \<Rightarrow> error + rat option" where
  "return_div a b = bind_error (truediv a b) (\<lambda>q. Inr (Some q))"

text \<open>
  Truth value of an optional number, as tested by \<^verbatim>\<open>if x\<close>, \<^verbatim>\<open>x and y\<close>, \<^verbatim>\<open>x or 0\<close> and
  \<^verbatim>\<open>all([...])\<close>: \<^verbatim>\<open>None\<close> is false, and so is zero.
\<close>

definition truthy :: "'a::zero option \<Rightarrow> bool" where
  "truthy x = (case x of None \<Rightarrow> False | Some v \<Rightarrow> v \<noteq> 0)"

definition py_all :: "bool list \<Rightarrow> bool" where
  "py_all bs = list_all (\<lambda>b. b) bs"

text \<open>\<^verbatim>\<open>x or 0\<close> for an optional integer.\<close>

definition or_zero :: "int option \<Rightarrow> int" where
  "or_zero x = (if truthy x then the x else 0)"

text \<open>\<^verbatim>\<open>int(x)\<close> for a float: truncation towards zero.\<close>

definition py_int :: "rat \<Rightarrow> int" where
  "py_int x = (if 0 \<le> x then \<lfloor>x\<rfloor> else \<lceil>x\<rceil>)"

subsection \<open>Formula library\<close>

definition true_shooting_percentage :: "int \<Rightarrow> int \<Rightarrow> int \<Rightarrow> error + rat option" where
  "true_shooting_percentage pts fga fta =
     (let denominator = 2 * (of_int fga + 0.44 * of_int fta)
      in if denominator = 0 then Inr None
         else return_div (of_int pts) denominator)"

definition effective_field_goal_percentage :: "int \<Rightarrow> int \<Rightarrow> int \<Rightarrow> error + rat option" where
  "effective_field_goal_percentage fgm three_pm fga =
     (if fga = 0 then Inr None
      else return_div (of_int fgm + 0.5 * of_int three_pm) (of_int fga))"

definition usage_percentage ::
  "int \<Rightarrow> int \<Rightarrow> int \<Rightarrow> rat \<Rightarrow> int \<Rightarrow> int \<Rightarrow> int \<Rightarrow> rat \<Rightarrow> error + rat option" where
  "usage_percentage fga fta tov mp team_fga team_fta team_tov team_mp =
     (if mp = 0 then Inr None
      else
        let player_possessions = of_int fga + 0.44 * of_int fta + of_int tov;
            team_possessions = of_int team_fga + 0.44 * of_int team_fta + of_int team_tov
        in if team_possessions = 0 then Inr None
           else return_div (100 * (player_possessions * (team_mp / 5))) (mp * team_possessions))"

definition assist_percentage :: "int \<Rightarrow> rat \<Rightarrow> int \<Rightarrow> rat \<Rightarrow> int \<Rightarrow> error + rat option" where
  "assist_percentage ast mp team_fgm team_mp player_fgm =
     (if mp = 0 \<or> team_mp = 0 then Inr None
      else
        bind_error (truediv mp (team_mp / 5)) (\<lambda>share.
          let teammate_fgm = share * of_int team_fgm - of_int player_fgm
          in if teammate_fgm \<le> 0 then Inr None
             else return_div (100 * of_int ast) teammate_fgm))"

definition rebound_percentage :: "int \<Rightarrow> rat \<Rightarrow> int \<Rightarrow> int \<Rightarrow> rat \<Rightarrow> error + rat option" where
  "rebound_percentage reb mp team_reb opponent_reb team_mp =
     (if mp = 0 then Inr None
      else
        let available_rebounds = team_reb + opponent_reb
        in if available_rebounds = 0 then Inr None
           else return_div (100 * (of_int reb * (team_mp / 5))) (mp * of_int available_rebounds))"

definition offensive_rebound_percentage ::
  "int \<Rightarrow> rat \<Rightarrow> int \<Rightarrow> int \<Rightarrow> rat \<Rightarrow> error + rat option" where
  "offensive_rebound_percentage oreb mp team_oreb opponent_dreb team_mp =
     (if mp = 0 then Inr None
      else
        let available_oreb = team_oreb + opponent_dreb
        in if available_oreb = 0 then Inr None
           else return_div (100 * (of_int oreb * (team_mp / 5))) (mp * of_int available_oreb))"

definition defensive_rebound_percentage ::
  "int \<Rightarrow> rat \<Rightarrow> int \<Rightarrow> int \<Rightarrow> rat \<Rightarrow> error + rat option" where
  "defensive_rebound_percentage dreb mp team_dreb opponent_oreb team_mp =
     (if mp = 0 then Inr None
      else
        let available_dreb = team_dreb + opponent_oreb
        in if available_dreb = 0 then Inr None
           else return_div (100 * (of_int dreb * (team_mp / 5))) (mp * of_int available_dreb))"

definition turnover_percentage :: "int \<Rightarrow> int \<Rightarrow> int \<Rightarrow> error + rat option" where
  "turnover_percentage fga fta tov =
     (let possessions = of_int fga + 0.44 * of_int fta + of_int tov
      in if possessions = 0 then Inr None
         else return_div (100 * of_int tov) possessions)"

definition steal_percentage :: "int \<Rightarrow> rat \<Rightarrow> int \<Rightarrow> rat \<Rightarrow> error + rat option" where
  "steal_percentage stl mp opponent_possessions team_mp =
     (if mp = 0 \<or> team_mp = 0 then Inr None
      else
        bind_error (truediv mp (team_mp / 5)) (\<lambda>player_share.
          let player_opponent_possessions = player_share * of_int opponent_possessions
          in if player_opponent_possessions = 0 then Inr None
             else return_div (100 * of_int stl) player_opponent_possessions))"

definition block_percentage :: "int \<Rightarrow> rat \<Rightarrow> int \<Rightarrow> int \<Rightarrow> rat \<Rightarrow> error + rat option" where
  "block_percentage blk mp opponent_fga opponent_three_pa team_mp =
     (if mp = 0 \<or> team_mp = 0 then Inr None
      else
        bind_error (truediv mp (team_mp / 5)) (\<lambda>player_share.
          let opponent_two_point_attempts = opponent_fga - opponent_three_pa;
              player_opponent_2pa = player_share * of_int opponent_two_point_attempts
          in if player_opponent_2pa = 0 then Inr None
             else return_div (100 * of_int blk) player_opponent_2pa))"

definition free_throw_rate :: "int \<Rightarrow> int \<Rightarrow> error + rat option" where
  "free_throw_rate fta fga =
     (if fga = 0 then Inr None
      else return_div (of_int fta) (of_int fga))"

definition points_per_possession :: "int \<Rightarrow> int \<Rightarrow> int \<Rightarrow> int \<Rightarrow> error + rat option" where
  "points_per_possession pts fga fta tov =
     (let possessions = of_int fga + 0.44 * of_int fta + of_int tov
      in if possessions = 0 then Inr None
         else return_div (of_int pts) possessions)"

definition estimate_possessions :: "int \<Rightarrow> int \<Rightarrow> int \<Rightarrow> int \<Rightarrow> rat" where
  "estimate_possessions fga fta oreb tov =
     of_int fga + 0.44 * of_int fta - of_int oreb + of_int tov"

definition pace :: "rat \<Rightarrow> rat \<Rightarrow> rat \<Rightarrow> error + rat option" where
  "pace team_possessions opponent_possessions mp =
     (if mp = 0 then Inr None
      else
        bind_error (truediv (team_possessions + opponent_possessions) (2 * (mp / 5))) (\<lambda>q.
          Inr (Some (48 * q))))"

text \<open>
  The default value of the parameter \<^verbatim>\<open>weights\<close>. In \<^verbatim>\<open>four_factors\<close> the conditional
  expression binds weaker than the subtraction: \<^verbatim>\<open>1 - (tov_pct / 100) if tov_pct else 0\<close>
  is \<^verbatim>\<open>(1 - tov_pct / 100) if tov_pct else 0\<close>.
\<close>

definition default_weights :: "rat \<times> rat \<times> rat \<times> rat" where
  "default_weights = (0.40, 0.25, 0.20, 0.15)"

definition four_factors :: "rat \<Rightarrow> rat \<Rightarrow> rat \<Rightarrow> rat \<Rightarrow> rat \<times> rat \<times> rat \<times> rat \<Rightarrow> rat" where
  "four_factors efg_pct tov_pct orb_pct ftr weights =
     (case weights of (w0, w1, w2, w3) \<Rightarrow>
        let tov_factor = (if tov_pct \<noteq> 0 then 1 - (tov_pct / 100) else 0);
            score = w0 * efg_pct
                  + w1 * tov_factor
                  + w2 * (if orb_pct \<noteq> 0 then orb_pct / 100 else 0)
                  + w3 * ftr
        in score)"

subsection \<open>Aggregators\<close>

text \<open>
  Inside a presence check the optional fields are known to hold a value; \<open>the\<close> reads it
  (\<open>the\<close> is never applied outside the check that makes its argument \<open>Some\<close>).
  \<^verbatim>\<open>team_minutes\<close> is a plain float, true when non-zero.
\<close>

definition calculate_all_player_stats :: "PlayerBoxScore \<Rightarrow> error + (string \<rightharpoonup> rat option)" where
  "calculate_all_player_stats box_score =
     bind_error (true_shooting_percentage
                   (points box_score)
                   (field_goals_attempted box_score)
                   (free_throws_attempted box_score)) (\<lambda>ts_pct.
     bind_error (effective_field_goal_percentage
                   (field_goals_made box_score)
                   (three_pointers_made box_score)
                   (field_goals_attempted box_score)) (\<lambda>efg_pct.
     bind_error (free_throw_rate
                   (free_throws_attempted box_score)
                   (field_goals_attempted box_score)) (\<lambda>ftr.
     bind_error (points_per_possession
                   (points box_score)
                   (field_goals_attempted box_score)
                   (free_throws_attempted box_score)
                   (turnovers box_score)) (\<lambda>ppp.
     bind_error (if py_all [truthy (team_field_goals_attempted box_score),
                            truthy (team_free_throws_attempted box_score),
                            truthy (team_turnovers box_score)]
                 then usage_percentage
                        (field_goals_attempted box_score)
                        (free_throws_attempted box_score)
                        (turnovers box_score)
                        (minutes_played box_score)
                        (the (team_field_goals_attempted box_score))
                        (the (team_free_throws_attempted box_score))
                        (the (team_turnovers box_score))
                        (team_minutes box_score)
                 else Inr None) (\<lambda>usg_pct.
     bind_error (turnover_percentage
                   (field_goals_attempted box_score)
                   (free_throws_attempted box_score)
                   (turnovers box_score)) (\<lambda>tov_pct.
     bind_error (if py_all [truthy (team_field_goals_made box_score),
                            team_minutes box_score \<noteq> 0]
                 then assist_percentage
                        (assists box_score)
                        (minutes_played box_score)
                        (the (team_field_goals_made box_score))
                        (team_minutes box_score)
                        (field_goals_made box_score)
                 else Inr None) (\<lambda>ast_pct.
     bind_error (if py_all [truthy (team_rebounds box_score),
                            truthy (opponent_rebounds box_score)]
                 then rebound_percentage
                        (rebounds box_score)
                        (minutes_played box_score)
                        (the (team_rebounds box_score))
                        (the (opponent_rebounds box_score))
                        (team_minutes box_score)
                 else Inr None) (\<lambda>reb_pct.
     bind_error (if py_all [truthy (team_offensive_rebounds box_score),
                            truthy (opponent_defensive_rebounds box_score)]
                 then offensive_rebound_percentage
                        (offensive_rebounds box_score)
                        (minutes_played box_score)
                        (the (team_offensive_rebounds box_score))
                        (the (opponent_defensive_rebounds box_score))
                        (team_minutes box_score)
                 else Inr None) (\<lambda>oreb_pct.
     bind_error (if py_all [truthy (team_defensive_rebounds box_score),
                            truthy (opponent_offensive_rebounds box_score)]
                 then defensive_rebound_percentage
                        (defensive_rebounds box_score)
                        (minutes_played box_score)
                        (the (team_defensive_rebounds box_score))
                        (the (opponent_offensive_rebounds box_score))
                        (team_minutes box_score)
                 else Inr None) (\<lambda>dreb_pct.
     bind_error (if truthy (opponent_field_goals_attempted box_score)
                 then
                   let opponent_possessions =
                         estimate_possessions
                           (the (opponent_field_goals_attempted box_score))
                           0
                           (or_zero (opponent_offensive_rebounds box_score))
                           0
                   in
                   bind_error (steal_percentage
                                 (steals box_score)
                                 (minutes_played box_score)
                                 (py_int opponent_possessions)
                                 (team_minutes box_score)) (\<lambda>stl_pct.
                   bind_error (if truthy (opponent_three_pointers_attempted box_score)
                               then block_percentage
                                      (blocks box_score)
                                      (minutes_played box_score)
                                      (the (opponent_field_goals_attempted box_score))
                                      (the (opponent_three_pointers_attempted box_score))
                                      (team_minutes box_score)
                               else Inr None) (\<lambda>blk_pct.
                   Inr (stl_pct, blk_pct)))
                 else Inr (None, None)) (\<lambda>(stl_pct, blk_pct).
     Inr [''ts_pct'' \<mapsto> ts_pct,
          ''efg_pct'' \<mapsto> efg_pct,
          ''ftr'' \<mapsto> ftr,
          ''ppp'' \<mapsto> ppp,
          ''usg_pct'' \<mapsto> usg_pct,
          ''tov_pct'' \<mapsto> tov_pct,
          ''ast_pct'' \<mapsto> ast_pct,
          ''reb_pct'' \<mapsto> reb_pct,
          ''oreb_pct'' \<mapsto> oreb_pct,
          ''dreb_pct'' \<mapsto> dreb_pct,
          ''stl_pct'' \<mapsto> stl_pct,
          ''blk_pct'' \<mapsto> blk_pct])))))))))))"

text \<open>
  In the team aggregator the three rebound percentages are plain divisions of integers
  under the single check \<^verbatim>\<open>total_rebounds > 0\<close>; the ratings are divisions under
  \<^verbatim>\<open>team_poss > 0\<close> and \<^verbatim>\<open>opp_poss > 0\<close>; the net rating and the four factors are
  gated by the truth values of the entries computed before. \<^verbatim>\<open>stats['possessions']\<close>
  is a float, never \<^verbatim>\<open>None\<close>.
\<close>

definition calculate_all_team_stats ::
  "TeamBoxScore \<Rightarrow> TeamBoxScore \<Rightarrow> error + (string \<rightharpoonup> rat option)" where
  "calculate_all_team_stats team opponent =
     bind_error (true_shooting_percentage
                   (points team)
                   (field_goals_attempted team)
                   (free_throws_attempted team)) (\<lambda>ts_pct.
     bind_error (effective_field_goal_percentage
                   (field_goals_made team)
                   (three_pointers_made team)
                   (field_goals_attempted team)) (\<lambda>efg_pct.
     bind_error (free_throw_rate
                   (free_throws_attempted team)
                   (field_goals_attempted team)) (\<lambda>ftr.
     let team_poss = estimate_possessions
                       (field_goals_attempted team)
                       (free_throws_attempted team)
                       (offensive_rebounds team)
                       (turnovers team);
         opp_poss = estimate_possessions
                      (field_goals_attempted opponent)
                      (free_throws_attempted opponent)
                      (offensive_rebounds opponent)
                      (turnovers opponent)
     in
     bind_error (pace team_poss opp_poss (minutes_played team)) (\<lambda>pace_value.
     bind_error (points_per_possession
                   (points team)
                   (field_goals_attempted team)
                   (free_throws_attempted team)
                   (turnovers team)) (\<lambda>ppp.
     bind_error (turnover_percentage
                   (field_goals_attempted team)
                   (free_throws_attempted team)
                   (turnovers team)) (\<lambda>tov_pct.
     let total_rebounds = rebounds team + rebounds opponent
     in
     bind_error (if total_rebounds > 0
                 then
                   bind_error (return_div
                                 (of_int (100 * offensive_rebounds team))
                                 (of_int (offensive_rebounds team + defensive_rebounds opponent)))
                     (\<lambda>oreb_pct.
                   bind_error (return_div
                                 (of_int (100 * defensive_rebounds team))
                                 (of_int (defensive_rebounds team + offensive_rebounds opponent)))
                     (\<lambda>dreb_pct.
                   bind_error (return_div
                                 (of_int (100 * rebounds team))
                                 (of_int total_rebounds))
                     (\<lambda>reb_pct.
                   Inr (oreb_pct, dreb_pct, reb_pct))))
                 else Inr (None, None, None)) (\<lambda>(oreb_pct, dreb_pct, reb_pct).
     bind_error (if team_poss > 0
                 then return_div (of_int (100 * points team)) team_poss
                 else Inr None) (\<lambda>ortg.
     bind_error (if opp_poss > 0
                 then return_div (of_int (100 * points opponent)) opp_poss
                 else Inr None) (\<lambda>drtg.
     let net_rtg = (if truthy ortg \<and> truthy drtg
                    then Some (the ortg - the drtg)
                    else None);
         four_factors_value =
                   (if py_all [truthy efg_pct, truthy tov_pct, truthy oreb_pct, truthy ftr]
                    then Some (four_factors (the efg_pct) (the tov_pct) (the oreb_pct) (the ftr)
                                 default_weights)
                    else None)
     in
     Inr [''ts_pct'' \<mapsto> ts_pct,
          ''efg_pct'' \<mapsto> efg_pct,
          ''ftr'' \<mapsto> ftr,
          ''possessions'' \<mapsto> Some team_poss,
          ''pace'' \<mapsto> pace_value,
          ''ppp'' \<mapsto> ppp,
          ''tov_pct'' \<mapsto> tov_pct,
          ''oreb_pct'' \<mapsto> oreb_pct,
          ''dreb_pct'' \<mapsto> dreb_pct,
          ''reb_pct'' \<mapsto> reb_pct,
          ''ortg'' \<mapsto> ortg,
          ''drtg'' \<mapsto> drtg,
          ''net_rtg'' \<mapsto> net_rtg,
          ''four_factors'' \<mapsto> four_factors_value])))))))))"

subsection \<open>Reading a result, and constructing records\<close>

text \<open>
  \<open>lookup_stat r k\<close> reads the entry \<open>k\<close> of the dictionary an aggregator returned:
  \<open>Inl e\<close> when the aggregator raised \<open>e\<close>, \<open>Inr None\<close> when the key is missing,
  \<open>Inr (Some None)\<close> when the metric is undefined and \<open>Inr (Some (Some x))\<close> when it is \<open>x\<close>.
\<close>

definition lookup_stat :: "error + (string \<rightharpoonup> rat option) \<Rightarrow> string \<Rightarrow> error + rat option option" where
  "lookup_stat r k = (case r of Inl e \<Rightarrow> Inl e | Inr stats \<Rightarrow> Inr (stats k))"

text \<open>The key set of a returned dictionary; \<open>None\<close> when the aggregator raised.\<close>

definition key_set :: "error + (string \<rightharpoonup> rat option) \<Rightarrow> string set option" where
  "key_set r = (case r of Inl e \<Rightarrow> None | Inr stats \<Rightarrow> Some (dom stats))"

text \<open>
  The dataclass constructors with their default values: \<^verbatim>\<open>TeamBoxScore()\<close>, and
  \<^verbatim>\<open>PlayerBoxScore(...)\<close> with the sixteen raw counts given and every context field
  left at its default.
\<close>

definition TeamBoxScore_default :: TeamBoxScore where
  "TeamBoxScore_default =
     \<lparr> minutes_played = 240, points = 0,
       field_goals_made = 0, field_goals_attempted = 0,
       three_pointers_made = 0, three_pointers_attempted = 0,
       free_throws_made = 0, free_throws_attempted = 0,
       offensive_rebounds = 0, defensive_rebounds = 0, rebounds = 0,
       assists = 0, steals = 0, blocks = 0, turnovers = 0, personal_fouls = 0 \<rparr>"

definition PlayerBoxScore_of_counts :: "TeamBoxScore \<Rightarrow> PlayerBoxScore" where
  "PlayerBoxScore_of_counts c =
     TeamBoxScore.extend c
       (PlayerBoxScore.fields 240 None None None None None None None None None
          None None None None None)"

text \<open>
  Concrete game lines used as example inputs: a starter with 36 minutes, once with no
  context field at all, once with every team and opponent total present, and once with
  the opponent field-goal attempts only; a reserve who made 8 field goals in 10 minutes
  while the team made 35; and a player who did not enter the game.
\<close>

definition starter_counts :: TeamBoxScore where
  "starter_counts =
     \<lparr> minutes_played = 36, points = 28,
       field_goals_made = 10, field_goals_attempted = 20,
       three_pointers_made = 3, three_pointers_attempted = 8,
       free_throws_made = 5, free_throws_attempted = 6,
       offensive_rebounds = 2, defensive_rebounds = 6, rebounds = 8,
       assists = 7, steals = 2, blocks = 1, turnovers = 3, personal_fouls = 2 \<rparr>"

definition starter_no_context :: PlayerBoxScore where
  "starter_no_context = PlayerBoxScore_of_counts starter_counts"

definition starter_full_context :: PlayerBoxScore where
  "starter_full_context =
     (PlayerBoxScore_of_counts starter_counts)
       \<lparr> team_field_goals_made := Some 40,
         team_field_goals_attempted := Some 88,
         team_three_pointers_attempted := Some 30,
         team_free_throws_attempted := Some 20,
         team_offensive_rebounds := Some 10,
         team_defensive_rebounds := Some 34,
         team_rebounds := Some 44,
         team_assists := Some 25,
         team_turnovers := Some 14,
         opponent_field_goals_attempted := Some 85,
         opponent_three_pointers_attempted := Some 28,
         opponent_offensive_rebounds := Some 9,
         opponent_defensive_rebounds := Some 33,
         opponent_rebounds := Some 42 \<rparr>"

definition reserve_scorer :: PlayerBoxScore where
  "reserve_scorer =
     (PlayerBoxScore_of_counts
        (TeamBoxScore_default
           \<lparr> minutes_played := 10, points := 20,
             field_goals_made := 8, field_goals_attempted := 12,
             three_pointers_made := 2, three_pointers_attempted := 4,
             free_throws_made := 2, free_throws_attempted := 2,
             assists := 2 \<rparr>))
       \<lparr> team_field_goals_made := Some 35 \<rparr>"

definition did_not_play :: PlayerBoxScore where
  "did_not_play =
     (PlayerBoxScore_of_counts (TeamBoxScore_default \<lparr> minutes_played := 0 \<rparr>))
       \<lparr> opponent_field_goals_attempted := Some 85 \<rparr>"

definition starter_without_opponent_oreb :: PlayerBoxScore where
  "starter_without_opponent_oreb =
     (PlayerBoxScore_of_counts starter_counts)
       \<lparr> opponent_field_goals_attempted := Some 85 \<rparr>"

text \<open>
  The rebound lines of the two teams of one game: 12 offensive and 33 defensive rebounds
  against 9 offensive and 31 defensive rebounds.
\<close>

definition rebounding_team :: TeamBoxScore where
  "rebounding_team =
     TeamBoxScore_default
       \<lparr> offensive_rebounds := 12, defensive_rebounds := 33, rebounds := 45 \<rparr>"

definition rebounding_opponent :: TeamBoxScore where
  "rebounding_opponent =
     TeamBoxScore_default
       \<lparr> offensive_rebounds := 9, defensive_rebounds := 31, rebounds := 40 \<rparr>"

text \<open>
  The input domain the specification assumes for raw counts (its data model): every count
  is non-negative, made shots do not exceed attempts, and total rebounds are offensive
  plus defensive rebounds. The code performs none of these checks.
\<close>

definition valid_counts :: "'a TeamBoxScore_scheme \<Rightarrow> bool" where
  "valid_counts r =
     (0 \<le> minutes_played r \<and> 0 \<le> points r
      \<and> 0 \<le> field_goals_made r \<and> field_goals_made r \<le> field_goals_attempted r
      \<and> 0 \<le> three_pointers_made r \<and> three_pointers_made r \<le> three_pointers_attempted r
      \<and> 0 \<le> free_throws_made r \<and> free_throws_made r \<le> free_throws_attempted r
      \<and> 0 \<le> offensive_rebounds r \<and> 0 \<le> defensive_rebounds r
      \<and> rebounds r = offensive_rebounds r + defensive_rebounds r
      \<and> 0 \<le> assists r \<and> 0 \<le> steals r \<and> 0 \<le> blocks r
      \<and> 0 \<le> turnovers r \<and> 0 \<le> personal_fouls r)"

section \<open>Properties\<close>

lemma truediv_nonzero: "b \<noteq> 0 \<Longrightarrow> truediv a b = Inr (a / b)"
  by (simp add: truediv_def)

lemma return_div_nonzero: "b \<noteq> 0 \<Longrightarrow> return_div a b = Inr (Some (a / b))"
  by (simp add: return_div_def bind_error_def truediv_def)

subsection \<open>The formula functions never raise\<close>

text \<open>
  Every division of the formula library is guarded by its own zero check, so each function
  returns normally; its value is \<open>None\<close> under the guard and the ratio otherwise.
\<close>

lemma bind_error_Inr: "bind_error (Inr v) f = f v"
  by (simp add: bind_error_def)

lemma bind_error_Inl: "bind_error (Inl e) f = Inl e"
  by (simp add: bind_error_def)

lemma true_shooting_percentage_eq:
  "true_shooting_percentage pts fga fta =
     Inr (if (of_int fga + 0.44 * of_int fta :: rat) = 0 then None
          else Some (of_int pts / (2 * (of_int fga + 0.44 * of_int fta))))"
  by (simp add: true_shooting_percentage_def return_div_nonzero)

lemma effective_field_goal_percentage_eq:
  "effective_field_goal_percentage fgm three_pm fga =
     Inr (if fga = 0 then None
          else Some ((of_int fgm + 0.5 * of_int three_pm) / of_int fga))"
  by (simp add: effective_field_goal_percentage_def return_div_nonzero)

lemma free_throw_rate_eq:
  "free_throw_rate fta fga = Inr (if fga = 0 then None else Some (of_int fta / of_int fga))"
  by (simp add: free_throw_rate_def return_div_nonzero)

lemma points_per_possession_eq:
  "points_per_possession pts fga fta tov =
     Inr (if (of_int fga + 0.44 * of_int fta + of_int tov :: rat) = 0 then None
          else Some (of_int pts / (of_int fga + 0.44 * of_int fta + of_int tov)))"
  by (simp add: points_per_possession_def return_div_nonzero Let_def)

lemma turnover_percentage_eq:
  "turnover_percentage fga fta tov =
     Inr (if (of_int fga + 0.44 * of_int fta + of_int tov :: rat) = 0 then None
          else Some (100 * of_int tov / (of_int fga + 0.44 * of_int fta + of_int tov)))"
  by (simp add: turnover_percentage_def return_div_nonzero Let_def)

lemma usage_percentage_eq:
  "usage_percentage fga fta tov mp team_fga team_fta team_tov team_mp =
     Inr (if mp = 0 \<or> (of_int team_fga + 0.44 * of_int team_fta + of_int team_tov :: rat) = 0
          then None
          else Some (100 * ((of_int fga + 0.44 * of_int fta + of_int tov) * (team_mp / 5))
                     / (mp * (of_int team_fga + 0.44 * of_int team_fta + of_int team_tov))))"
  by (simp add: usage_percentage_def return_div_nonzero Let_def)

lemma assist_percentage_eq:
  "assist_percentage ast mp team_fgm team_mp player_fgm =
     Inr (if mp = 0 \<or> team_mp = 0 \<or> mp / (team_mp / 5) * of_int team_fgm - of_int player_fgm \<le> 0
          then None
          else Some (100 * of_int ast / (mp / (team_mp / 5) * of_int team_fgm - of_int player_fgm)))"
  by (simp add: assist_percentage_def return_div_nonzero truediv_nonzero bind_error_Inr Let_def)

lemma rebound_percentage_eq:
  "rebound_percentage reb mp team_reb opponent_reb team_mp =
     Inr (if mp = 0 \<or> team_reb + opponent_reb = 0 then None
          else Some (100 * (of_int reb * (team_mp / 5)) / (mp * of_int (team_reb + opponent_reb))))"
  by (simp add: rebound_percentage_def return_div_nonzero Let_def)

lemma offensive_rebound_percentage_eq:
  "offensive_rebound_percentage oreb mp team_oreb opponent_dreb team_mp =
     Inr (if mp = 0 \<or> team_oreb + opponent_dreb = 0 then None
          else Some (100 * (of_int oreb * (team_mp / 5)) / (mp * of_int (team_oreb + opponent_dreb))))"
  by (simp add: offensive_rebound_percentage_def return_div_nonzero Let_def)

lemma defensive_rebound_percentage_eq:
  "defensive_rebound_percentage dreb mp team_dreb opponent_oreb team_mp =
     Inr (if mp = 0 \<or> team_dreb + opponent_oreb = 0 then None
          else Some (100 * (of_int dreb * (team_mp / 5)) / (mp * of_int (team_dreb + opponent_oreb))))"
  by (simp add: defensive_rebound_percentage_def return_div_nonzero Let_def)

lemma steal_percentage_eq:
  "steal_percentage stl mp opponent_possessions team_mp =
     Inr (if mp = 0 \<or> team_mp = 0 \<or> opponent_possessions = 0 then None
          else Some (100 * of_int stl / (mp / (team_mp / 5) * of_int opponent_possessions)))"
  by (simp add: steal_percentage_def return_div_nonzero truediv_nonzero bind_error_Inr Let_def)

lemma block_percentage_eq:
  "block_percentage blk mp opponent_fga opponent_three_pa team_mp =
     Inr (if mp = 0 \<or> team_mp = 0 \<or> opponent_fga = opponent_three_pa then None
          else Some (100 * of_int blk
                     / (mp / (team_mp / 5) * of_int (opponent_fga - opponent_three_pa))))"
  by (simp add: block_percentage_def return_div_nonzero truediv_nonzero bind_error_Inr Let_def)

lemma pace_eq:
  "pace team_possessions opponent_possessions mp =
     Inr (if mp = 0 then None
          else Some (48 * ((team_possessions + opponent_possessions) / (2 * (mp / 5)))))"
  by (simp add: pace_def truediv_nonzero bind_error_Inr)

lemmas formula_eqs =
  true_shooting_percentage_eq effective_field_goal_percentage_eq free_throw_rate_eq
  points_per_possession_eq turnover_percentage_eq usage_percentage_eq assist_percentage_eq
  rebound_percentage_eq offensive_rebound_percentage_eq defensive_rebound_percentage_eq
  steal_percentage_eq block_percentage_eq pace_eq

lemma calculate_all_player_stats_returns:
  "\<exists>stats. calculate_all_player_stats box_score = Inr stats"
  unfolding calculate_all_player_stats_def formula_eqs bind_error_Inr Let_def
  by (simp add: bind_error_Inr)

text \<open>
  Claim C9. On the concrete scenarios the formulas return the documented values, in exact
  rational arithmetic: TS% of 30 points on 20 field-goal and 5 free-throw attempts is
  30 / 44.4; eFG% of 10 made, 3 threes, 20 attempts is 0.575; 88 field-goal attempts,
  20 free-throw attempts, 10 offensive rebounds and 14 turnovers estimate 100.8
  possessions; and 100.8 against 99.2 possessions over 240 minutes is a pace of 100.
\<close>

theorem concrete_scenarios:
  "true_shooting_percentage 30 20 5 = Inr (Some (30 / 44.4))
   \<and> effective_field_goal_percentage 10 3 20 = Inr (Some 0.575)
   \<and> estimate_possessions 88 20 10 14 = 100.8
   \<and> pace 100.8 99.2 240 = Inr (Some 100.0)"
  by (simp add: true_shooting_percentage_def effective_field_goal_percentage_def
      estimate_possessions_def pace_def return_div_def bind_error_def truediv_def)

subsection \<open>When the aggregators return\<close>

text \<open>
  The player aggregator always returns (lemma \<open>calculate_all_player_stats_returns\<close>), and
  its dictionary always has the same twelve keys.
\<close>

lemma player_key_set:
  "key_set (calculate_all_player_stats box_score) =
   Some {''ts_pct'', ''efg_pct'', ''ftr'', ''ppp'', ''usg_pct'', ''tov_pct'', ''ast_pct'',
         ''reb_pct'', ''oreb_pct'', ''dreb_pct'', ''stl_pct'', ''blk_pct''}"
  unfolding calculate_all_player_stats_def formula_eqs bind_error_Inr Let_def key_set_def
  by (auto simp add: bind_error_Inr)

text \<open>
  The team aggregator raises exactly when the combined rebound total is positive while
  one of the two pools it divides by is empty: \<^verbatim>\<open>total_rebounds > 0\<close> guards only the
  third of the three divisions. On every other input it returns a dictionary with the
  fourteen documented keys.
\<close>

lemma calculate_all_team_stats_raises_iff:
  "calculate_all_team_stats team opponent = Inl ZeroDivisionError
   \<longleftrightarrow> rebounds team + rebounds opponent > 0
       \<and> (offensive_rebounds team + defensive_rebounds opponent = 0
          \<or> defensive_rebounds team + offensive_rebounds opponent = 0)"
  unfolding calculate_all_team_stats_def formula_eqs bind_error_Inr Let_def
  by (simp add: return_div_def truediv_def bind_error_def)

lemma team_key_set:
  "key_set (calculate_all_team_stats team opponent) =
   (if rebounds team + rebounds opponent > 0
       \<and> (offensive_rebounds team + defensive_rebounds opponent = 0
          \<or> defensive_rebounds team + offensive_rebounds opponent = 0)
    then None
    else Some {''ts_pct'', ''efg_pct'', ''ftr'', ''possessions'', ''pace'', ''ppp'', ''tov_pct'',
                ''oreb_pct'', ''dreb_pct'', ''reb_pct'', ''ortg'', ''drtg'', ''net_rtg'',
                ''four_factors''})"
  unfolding calculate_all_team_stats_def formula_eqs bind_error_Inr Let_def key_set_def
  by (simp add: return_div_def truediv_def bind_error_def insert_commute)

subsection \<open>Shooting metrics\<close>

text \<open>
  Claim C6. For non-negative integer inputs, true shooting percentage is undefined if and
  only if FGA + 0.44 FTA = 0; effective field-goal percentage and free-throw rate are
  undefined if and only if FGA = 0; points per possession is undefined if and only if
  FGA + 0.44 FTA + TOV = 0; otherwise each returns its documented ratio. No case raises.
\<close>

theorem shooting_metrics_undefined_iff:
  assumes "0 \<le> pts" "0 \<le> fgm" "0 \<le> three_pm" "0 \<le> fga" "0 \<le> fta" "0 \<le> tov"
  shows "(true_shooting_percentage pts fga fta = Inr None
            \<longleftrightarrow> (of_int fga + 0.44 * of_int fta :: rat) = 0)
       \<and> ((of_int fga + 0.44 * of_int fta :: rat) \<noteq> 0 \<longrightarrow>
            true_shooting_percentage pts fga fta
              = Inr (Some (of_int pts / (2 * (of_int fga + 0.44 * of_int fta)))))
       \<and> (effective_field_goal_percentage fgm three_pm fga = Inr None \<longleftrightarrow> fga = 0)
       \<and> (fga \<noteq> 0 \<longrightarrow>
            effective_field_goal_percentage fgm three_pm fga
              = Inr (Some ((of_int fgm + 0.5 * of_int three_pm) / of_int fga)))
       \<and> (free_throw_rate fta fga = Inr None \<longleftrightarrow> fga = 0)
       \<and> (fga \<noteq> 0 \<longrightarrow> free_throw_rate fta fga = Inr (Some (of_int fta / of_int fga)))
       \<and> (points_per_possession pts fga fta tov = Inr None
            \<longleftrightarrow> (of_int fga + 0.44 * of_int fta + of_int tov :: rat) = 0)
       \<and> ((of_int fga + 0.44 * of_int fta + of_int tov :: rat) \<noteq> 0 \<longrightarrow>
            points_per_possession pts fga fta tov
              = Inr (Some (of_int pts / (of_int fga + 0.44 * of_int fta + of_int tov))))"
  by (simp add: true_shooting_percentage_eq effective_field_goal_percentage_eq
      free_throw_rate_eq points_per_possession_eq)

theorem shooting_metrics_undefined_iff_witness:
  "true_shooting_percentage 30 20 5 = Inr (Some (30 / 44.4))
   \<and> effective_field_goal_percentage 10 3 20 = Inr (Some 0.575)
   \<and> free_throw_rate 5 20 = Inr (Some 0.25)
   \<and> points_per_possession 30 20 5 2 = Inr (Some (30 / 24.2))
   \<and> true_shooting_percentage 0 0 0 = Inr None
   \<and> effective_field_goal_percentage 0 0 0 = Inr None
   \<and> free_throw_rate 0 0 = Inr None
   \<and> points_per_possession 0 0 0 0 = Inr None"
  using shooting_metrics_undefined_iff [of 30 10 3 20 5 2]
        shooting_metrics_undefined_iff [of 0 0 0 0 0 0]
  by simp

text \<open>
  Claim C7. For non-negative \<open>fgm\<close>, \<open>three_pm\<close> and \<open>fga\<close> with \<open>fga > 0\<close> and
  \<open>fgm \<le> fga\<close>: effective field-goal percentage is defined and at least \<open>fgm / fga\<close>
  whenever \<open>three_pm > 0\<close>, and equals \<open>fgm / fga\<close> when \<open>three_pm = 0\<close>.
\<close>

theorem efg_at_least_fg_pct:
  assumes "0 \<le> fgm" "0 \<le> three_pm" "0 < fga" "fgm \<le> fga"
  shows "(0 < three_pm \<longrightarrow>
            (\<exists>efg. effective_field_goal_percentage fgm three_pm fga = Inr (Some efg)
                   \<and> of_int fgm / of_int fga \<le> efg))
       \<and> effective_field_goal_percentage fgm 0 fga = Inr (Some (of_int fgm / of_int fga))"
  using assms
  by (simp add: effective_field_goal_percentage_eq divide_le_cancel)

theorem efg_at_least_fg_pct_witness:
  "effective_field_goal_percentage 10 3 20 = Inr (Some 0.575)
   \<and> (10 / 20 :: rat) \<le> 0.575
   \<and> effective_field_goal_percentage 10 0 20 = Inr (Some (10 / 20))"
  using efg_at_least_fg_pct [of 10 3 20]
  by (simp add: effective_field_goal_percentage_eq)

lemma four_factors_default_weights:
  "tov_pct \<noteq> 0 \<Longrightarrow>
   four_factors efg_pct tov_pct orb_pct ftr default_weights
     = 0.40 * efg_pct + 0.25 * (1 - tov_pct / 100) + 0.20 * (orb_pct / 100) + 0.15 * ftr"
  by (simp add: four_factors_def default_weights_def)

text \<open>
  Claim C3 says that with the default weights \<open>four_factors\<close> returns
  0.40 eFG% + 0.25 (1 - TOV%/100) + 0.20 (ORB%/100) + 0.15 FTr for all numeric inputs.
  That holds for every non-zero turnover percentage (lemma \<open>four_factors_default_weights\<close>).
  At a turnover percentage of exactly zero the test \<^verbatim>\<open>if tov_pct\<close> is false and the
  turnover factor is 0 instead of 1, although the docstring says the percentage is
  inverted because lower is better: for eFG% 0.5, TOV% 0, ORB% 25, FTr 0.2 the function
  returns 0.28, and the documented formula gives 0.53.
\<close>

theorem four_factors_zero_turnover_pct:
  "four_factors 0.5 0 25 0.2 default_weights = 0.28
   \<and> 0.40 * 0.5 + 0.25 * (1 - 0 / 100) + 0.20 * (25 / 100) + 0.15 * 0.2 = (0.53 :: rat)
   \<and> four_factors 0.5 0 25 0.2 default_weights
       \<noteq> 0.40 * 0.5 + 0.25 * (1 - 0 / 100) + 0.20 * (25 / 100) + 0.15 * 0.2"
  by (simp add: four_factors_def default_weights_def)

subsection \<open>The team aggregator\<close>

text \<open>
  Claim C1 says that no aggregator and no formula function ever raises, and in particular
  that \<open>calculate_all_team_stats\<close> returns normally for all non-negative counts with
  rebounds = offensive + defensive. The formula functions and the player aggregator do
  return on every input (lemmas \<open>formula_eqs\<close>, \<open>calculate_all_player_stats_returns\<close>).
  The team aggregator does not: a team with one defensive rebound against an opponent with
  no rebound at all has a positive rebound total, and the offensive-rebound share then
  divides 0 by 0. Both records satisfy the specification's input domain.
\<close>

theorem team_stats_division_by_zero:
  "valid_counts (TeamBoxScore_default\<lparr>defensive_rebounds := 1, rebounds := 1\<rparr>)
   \<and> valid_counts TeamBoxScore_default
   \<and> calculate_all_team_stats
        (TeamBoxScore_default\<lparr>defensive_rebounds := 1, rebounds := 1\<rparr>)
        TeamBoxScore_default
       = Inl ZeroDivisionError"
  by (simp add: calculate_all_team_stats_raises_iff valid_counts_def TeamBoxScore_default_def)

text \<open>
  Claim C5 says that each aggregator returns, for every input, a dictionary with its fixed
  key set. The player aggregator does (lemma \<open>player_key_set\<close>), and so does the team
  aggregator whenever it returns (lemma \<open>team_key_set\<close>). On a pair of records whose
  defensive-rebound pool is empty while rebounds were collected, the team aggregator
  raises and returns no dictionary at all.
\<close>

theorem team_stats_no_key_set:
  "key_set (calculate_all_team_stats
              (TeamBoxScore_default\<lparr>offensive_rebounds := 5, rebounds := 5\<rparr>)
              (TeamBoxScore_default\<lparr>defensive_rebounds := 20, rebounds := 20\<rparr>))
     = None"
  by (simp add: team_key_set TeamBoxScore_default_def)

text \<open>
  The ratings and the rebound shares the team aggregator stores, on the inputs on which it
  returns.
\<close>

lemma team_ortg:
  "lookup_stat (calculate_all_team_stats team opponent) ''ortg'' =
     (if rebounds team + rebounds opponent > 0
         \<and> (offensive_rebounds team + defensive_rebounds opponent = 0
            \<or> defensive_rebounds team + offensive_rebounds opponent = 0)
      then Inl ZeroDivisionError
      else Inr (Some (if estimate_possessions (field_goals_attempted team)
                           (free_throws_attempted team) (offensive_rebounds team)
                           (turnovers team) > 0
                      then Some (of_int (100 * points team)
                                 / estimate_possessions (field_goals_attempted team)
                                     (free_throws_attempted team) (offensive_rebounds team)
                                     (turnovers team))
                      else None)))"
  unfolding calculate_all_team_stats_def formula_eqs bind_error_Inr Let_def lookup_stat_def
  by (simp add: return_div_def truediv_def bind_error_def)

lemma team_drtg:
  "lookup_stat (calculate_all_team_stats team opponent) ''drtg'' =
     (if rebounds team + rebounds opponent > 0
         \<and> (offensive_rebounds team + defensive_rebounds opponent = 0
            \<or> defensive_rebounds team + offensive_rebounds opponent = 0)
      then Inl ZeroDivisionError
      else Inr (Some (if estimate_possessions (field_goals_attempted opponent)
                           (free_throws_attempted opponent) (offensive_rebounds opponent)
                           (turnovers opponent) > 0
                      then Some (of_int (100 * points opponent)
                                 / estimate_possessions (field_goals_attempted opponent)
                                     (free_throws_attempted opponent) (offensive_rebounds opponent)
                                     (turnovers opponent))
                      else None)))"
  unfolding calculate_all_team_stats_def formula_eqs bind_error_Inr Let_def lookup_stat_def
  by (simp add: return_div_def truediv_def bind_error_def)

lemma team_oreb_pct:
  "lookup_stat (calculate_all_team_stats team opponent) ''oreb_pct'' =
     (if rebounds team + rebounds opponent > 0
      then if offensive_rebounds team + defensive_rebounds opponent = 0
              \<or> defensive_rebounds team + offensive_rebounds opponent = 0
           then Inl ZeroDivisionError
           else Inr (Some (Some (of_int (100 * offensive_rebounds team)
                                 / of_int (offensive_rebounds team + defensive_rebounds opponent))))
      else Inr (Some None))"
  unfolding calculate_all_team_stats_def formula_eqs bind_error_Inr Let_def lookup_stat_def
  by (simp add: return_div_def truediv_def bind_error_def)

lemma team_dreb_pct:
  "lookup_stat (calculate_all_team_stats team opponent) ''dreb_pct'' =
     (if rebounds team + rebounds opponent > 0
      then if offensive_rebounds team + defensive_rebounds opponent = 0
              \<or> defensive_rebounds team + offensive_rebounds opponent = 0
           then Inl ZeroDivisionError
           else Inr (Some (Some (of_int (100 * defensive_rebounds team)
                                 / of_int (defensive_rebounds team + offensive_rebounds opponent))))
      else Inr (Some None))"
  unfolding calculate_all_team_stats_def formula_eqs bind_error_Inr Let_def lookup_stat_def
  by (simp add: return_div_def truediv_def bind_error_def)

lemma team_reb_pct:
  "lookup_stat (calculate_all_team_stats team opponent) ''reb_pct'' =
     (if rebounds team + rebounds opponent > 0
      then if offensive_rebounds team + defensive_rebounds opponent = 0
              \<or> defensive_rebounds team + offensive_rebounds opponent = 0
           then Inl ZeroDivisionError
           else Inr (Some (Some (of_int (100 * rebounds team)
                                 / of_int (rebounds team + rebounds opponent))))
      else Inr (Some None))"
  unfolding calculate_all_team_stats_def formula_eqs bind_error_Inr Let_def lookup_stat_def
  by (simp add: return_div_def truediv_def bind_error_def)

text \<open>
  Claim C4 says that the net rating is defined if and only if both ratings are defined.
  The ratings themselves are defined exactly when the respective possession estimate is
  strictly positive (lemmas \<open>team_ortg\<close>, \<open>team_drtg\<close>). The net rating is gated by
  \<^verbatim>\<open>if stats['ortg'] and stats['drtg']\<close>, which is also false for a rating of 0.0:
  a team without points on ten field-goal attempts has the defined offensive rating 0,
  its opponent's 100 points on ten attempts give the defined defensive rating 1000, and
  the net rating is undefined instead of -1000.
\<close>

theorem net_rating_lost_on_zero_rating:
  "lookup_stat (calculate_all_team_stats
                  (TeamBoxScore_default\<lparr>field_goals_attempted := 10\<rparr>)
                  (TeamBoxScore_default\<lparr>points := 100, field_goals_attempted := 10\<rparr>))
               ''ortg'' = Inr (Some (Some 0))
   \<and> lookup_stat (calculate_all_team_stats
                  (TeamBoxScore_default\<lparr>field_goals_attempted := 10\<rparr>)
                  (TeamBoxScore_default\<lparr>points := 100, field_goals_attempted := 10\<rparr>))
               ''drtg'' = Inr (Some (Some 1000))
   \<and> lookup_stat (calculate_all_team_stats
                  (TeamBoxScore_default\<lparr>field_goals_attempted := 10\<rparr>)
                  (TeamBoxScore_default\<lparr>points := 100, field_goals_attempted := 10\<rparr>))
               ''net_rtg'' = Inr (Some None)"
  unfolding calculate_all_team_stats_def formula_eqs bind_error_Inr Let_def lookup_stat_def
  by (simp add: return_div_def truediv_def bind_error_def TeamBoxScore_default_def
      estimate_possessions_def truthy_def)

text \<open>A share and its complement over the same non-empty pool add up to 100.\<close>

lemma share_complement:
  fixes a b :: int
  assumes "a + b \<noteq> 0"
  shows "(of_int (100 * a) / of_int (a + b) :: rat) + of_int (100 * b) / of_int (b + a) = 100"
proof -
  have nz: "(of_int a + of_int b :: rat) \<noteq> 0"
    using assms by (metis of_int_add of_int_eq_0_iff)
  have "(of_int (100 * a) / of_int (a + b) :: rat) + of_int (100 * b) / of_int (b + a)
        = 100 * (of_int a + of_int b) / (of_int a + of_int b)"
    by (simp add: add.commute add_divide_distrib distrib_left)
  also have "\<dots> = 100"
    by (rule nonzero_mult_div_cancel_right [OF nz])
  finally show ?thesis .
qed

text \<open>
  With a positive rebound total and two non-empty pools the team aggregator returns, and
  its three rebound percentages are defined: each is the share of its pool.
\<close>

lemma rebound_percentages_defined:
  assumes "rebounds team + rebounds opponent > 0"
    and "offensive_rebounds team + defensive_rebounds opponent \<noteq> 0"
    and "defensive_rebounds team + offensive_rebounds opponent \<noteq> 0"
  shows "lookup_stat (calculate_all_team_stats team opponent) ''oreb_pct'' =
           Inr (Some (Some (of_int (100 * offensive_rebounds team)
                            / of_int (offensive_rebounds team + defensive_rebounds opponent))))"
    and "lookup_stat (calculate_all_team_stats team opponent) ''dreb_pct'' =
           Inr (Some (Some (of_int (100 * defensive_rebounds team)
                            / of_int (defensive_rebounds team + offensive_rebounds opponent))))"
    and "lookup_stat (calculate_all_team_stats team opponent) ''reb_pct'' =
           Inr (Some (Some (of_int (100 * rebounds team)
                            / of_int (rebounds team + rebounds opponent))))"
  using assms by (simp_all add: team_oreb_pct team_dreb_pct team_reb_pct)

text \<open>
  Claim C8. Whenever both directions of \<open>calculate_all_team_stats\<close> yield defined
  rebound percentages, the team's offensive share plus the opponent's defensive share is
  100, the team's defensive share plus the opponent's offensive share is 100, and the two
  total-rebound shares add up to 100.
\<close>

theorem rebound_shares_complementary:
  assumes "lookup_stat (calculate_all_team_stats team opponent) ''oreb_pct'' = Inr (Some (Some t_oreb))"
    and "lookup_stat (calculate_all_team_stats team opponent) ''dreb_pct'' = Inr (Some (Some t_dreb))"
    and "lookup_stat (calculate_all_team_stats team opponent) ''reb_pct'' = Inr (Some (Some t_reb))"
    and "lookup_stat (calculate_all_team_stats opponent team) ''oreb_pct'' = Inr (Some (Some o_oreb))"
    and "lookup_stat (calculate_all_team_stats opponent team) ''dreb_pct'' = Inr (Some (Some o_dreb))"
    and "lookup_stat (calculate_all_team_stats opponent team) ''reb_pct'' = Inr (Some (Some o_reb))"
  shows "t_oreb + o_dreb = 100 \<and> t_dreb + o_oreb = 100 \<and> t_reb + o_reb = 100"
proof -
  from assms(1) have pos: "rebounds team + rebounds opponent > 0"
    and p1: "offensive_rebounds team + defensive_rebounds opponent \<noteq> 0"
    and p2: "defensive_rebounds team + offensive_rebounds opponent \<noteq> 0"
    by (auto simp add: team_oreb_pct split: if_splits)
  have pos': "rebounds opponent + rebounds team > 0" using pos by simp
  have tot: "rebounds team + rebounds opponent \<noteq> 0" using pos by simp
  have q1: "offensive_rebounds opponent + defensive_rebounds team \<noteq> 0" using p2 by simp
  have q2: "defensive_rebounds opponent + offensive_rebounds team \<noteq> 0" using p1 by simp
  have v1: "t_oreb = of_int (100 * offensive_rebounds team)
                     / of_int (offensive_rebounds team + defensive_rebounds opponent)"
    using assms(1) pos p1 p2 by (simp add: team_oreb_pct)
  have v2: "t_dreb = of_int (100 * defensive_rebounds team)
                     / of_int (defensive_rebounds team + offensive_rebounds opponent)"
    using assms(2) pos p1 p2 by (simp add: team_dreb_pct)
  have v3: "t_reb = of_int (100 * rebounds team) / of_int (rebounds team + rebounds opponent)"
    using assms(3) pos p1 p2 by (simp add: team_reb_pct)
  have w1: "o_oreb = of_int (100 * offensive_rebounds opponent)
                     / of_int (offensive_rebounds opponent + defensive_rebounds team)"
    using assms(4) pos' q1 q2 by (simp add: team_oreb_pct)
  have w2: "o_dreb = of_int (100 * defensive_rebounds opponent)
                     / of_int (defensive_rebounds opponent + offensive_rebounds team)"
    using assms(5) pos' q1 q2 by (simp add: team_dreb_pct)
  have w3: "o_reb = of_int (100 * rebounds opponent) / of_int (rebounds opponent + rebounds team)"
    using assms(6) pos' q1 q2 by (simp add: team_reb_pct)
  show ?thesis
    unfolding v1 v2 v3 w1 w2 w3
    using share_complement [OF p1] share_complement [OF p2] share_complement [OF tot]
    by blast
qed

theorem rebound_shares_complementary_witness:
  "lookup_stat (calculate_all_team_stats rebounding_team rebounding_opponent) ''oreb_pct''
       = Inr (Some (Some (1200 / 43)))
   \<and> lookup_stat (calculate_all_team_stats rebounding_team rebounding_opponent) ''dreb_pct''
       = Inr (Some (Some (3300 / 42)))
   \<and> lookup_stat (calculate_all_team_stats rebounding_team rebounding_opponent) ''reb_pct''
       = Inr (Some (Some (4500 / 85)))
   \<and> lookup_stat (calculate_all_team_stats rebounding_opponent rebounding_team) ''oreb_pct''
       = Inr (Some (Some (900 / 42)))
   \<and> lookup_stat (calculate_all_team_stats rebounding_opponent rebounding_team) ''dreb_pct''
       = Inr (Some (Some (3100 / 43)))
   \<and> lookup_stat (calculate_all_team_stats rebounding_opponent rebounding_team) ''reb_pct''
       = Inr (Some (Some (4000 / 85)))
   \<and> (1200 / 43 :: rat) + 3100 / 43 = 100
   \<and> (3300 / 42 :: rat) + 900 / 42 = 100
   \<and> (4500 / 85 :: rat) + 4000 / 85 = 100"
proof -
  have t_oreb: "lookup_stat (calculate_all_team_stats rebounding_team rebounding_opponent)
                  ''oreb_pct'' = Inr (Some (Some (1200 / 43)))"
    by (simp add: team_oreb_pct rebounding_team_def rebounding_opponent_def
        TeamBoxScore_default_def)
  have t_dreb: "lookup_stat (calculate_all_team_stats rebounding_team rebounding_opponent)
                  ''dreb_pct'' = Inr (Some (Some (3300 / 42)))"
    by (simp add: team_dreb_pct rebounding_team_def rebounding_opponent_def
        TeamBoxScore_default_def)
  have t_reb: "lookup_stat (calculate_all_team_stats rebounding_team rebounding_opponent)
                  ''reb_pct'' = Inr (Some (Some (4500 / 85)))"
    by (simp add: team_reb_pct rebounding_team_def rebounding_opponent_def
        TeamBoxScore_default_def)
  have o_oreb: "lookup_stat (calculate_all_team_stats rebounding_opponent rebounding_team)
                  ''oreb_pct'' = Inr (Some (Some (900 / 42)))"
    by (simp add: team_oreb_pct rebounding_team_def rebounding_opponent_def
        TeamBoxScore_default_def)
  have o_dreb: "lookup_stat (calculate_all_team_stats rebounding_opponent rebounding_team)
                  ''dreb_pct'' = Inr (Some (Some (3100 / 43)))"
    by (simp add: team_dreb_pct rebounding_team_def rebounding_opponent_def
        TeamBoxScore_default_def)
  have o_reb: "lookup_stat (calculate_all_team_stats rebounding_opponent rebounding_team)
                  ''reb_pct'' = Inr (Some (Some (4000 / 85)))"
    by (simp add: team_reb_pct rebounding_team_def rebounding_opponent_def
        TeamBoxScore_default_def)
  have sums: "(1200 / 43 :: rat) + 3100 / 43 = 100
              \<and> (3300 / 42 :: rat) + 900 / 42 = 100
              \<and> (4500 / 85 :: rat) + 4000 / 85 = 100"
    by (rule rebound_shares_complementary [OF t_oreb t_dreb t_reb o_oreb o_dreb o_reb])
  show ?thesis
    using t_oreb t_dreb t_reb o_oreb o_dreb o_reb sums by blast
qed


subsection \<open>The player aggregator\<close>

lemmas example_defs = starter_counts_def starter_no_context_def starter_full_context_def
  reserve_scorer_def did_not_play_def starter_without_opponent_oreb_def
  PlayerBoxScore_of_counts_def TeamBoxScore_default_def TeamBoxScore.defs PlayerBoxScore.defs

text \<open>
  The opponent-possession estimate of the player aggregator is an integer-valued float, so
  the truncation \<^verbatim>\<open>int(...)\<close> returns it unchanged.
\<close>

lemma py_int_of_int: "py_int (of_int n) = n"
  by (simp add: py_int_def)

lemma opponent_possessions_int:
  "py_int (estimate_possessions a 0 r 0) = a - r"
proof -
  have "estimate_possessions a 0 r 0 = of_int (a - r)"
    by (simp add: estimate_possessions_def)
  then show ?thesis by (simp only: py_int_of_int)
qed

lemma if_Inr_merge: "(if c then Inr x else Inr y) = Inr (if c then x else y)"
  by simp

text \<open>
  The seven context-dependent entries of the player dictionary: the presence check of the
  aggregator outside, the guard of the formula inside.
\<close>

lemma player_usg_pct:
  "lookup_stat (calculate_all_player_stats b) ''usg_pct'' =
     Inr (Some (if truthy (team_field_goals_attempted b) \<and> truthy (team_free_throws_attempted b)
                   \<and> truthy (team_turnovers b)
                then if minutes_played b = 0
                        \<or> (of_int (the (team_field_goals_attempted b))
                            + 0.44 * of_int (the (team_free_throws_attempted b))
                            + of_int (the (team_turnovers b)) :: rat) = 0
                     then None
                     else Some (100 * ((of_int (field_goals_attempted b)
                                        + 0.44 * of_int (free_throws_attempted b)
                                        + of_int (turnovers b)) * (team_minutes b / 5))
                                / (minutes_played b
                                   * (of_int (the (team_field_goals_attempted b))
                                      + 0.44 * of_int (the (team_free_throws_attempted b))
                                      + of_int (the (team_turnovers b)))))
                else None))"
  unfolding calculate_all_player_stats_def formula_eqs Let_def lookup_stat_def
    opponent_possessions_int if_Inr_merge bind_error_Inr
  by (simp add: py_all_def if_Inr_merge bind_error_Inr)

lemma player_ast_pct:
  "lookup_stat (calculate_all_player_stats b) ''ast_pct'' =
     Inr (Some (if truthy (team_field_goals_made b) \<and> team_minutes b \<noteq> 0
                then if minutes_played b = 0
                        \<or> minutes_played b / (team_minutes b / 5)
                            * of_int (the (team_field_goals_made b))
                            - of_int (field_goals_made b) \<le> 0
                     then None
                     else Some (100 * of_int (assists b)
                                / (minutes_played b / (team_minutes b / 5)
                                   * of_int (the (team_field_goals_made b))
                                   - of_int (field_goals_made b)))
                else None))"
  unfolding calculate_all_player_stats_def formula_eqs Let_def lookup_stat_def
    opponent_possessions_int if_Inr_merge bind_error_Inr
  by (simp add: py_all_def if_Inr_merge bind_error_Inr)

lemma player_reb_pct:
  "lookup_stat (calculate_all_player_stats b) ''reb_pct'' =
     Inr (Some (if truthy (team_rebounds b) \<and> truthy (opponent_rebounds b)
                then if minutes_played b = 0
                        \<or> the (team_rebounds b) + the (opponent_rebounds b) = 0
                     then None
                     else Some (100 * (of_int (rebounds b) * (team_minutes b / 5))
                                / (minutes_played b
                                   * of_int (the (team_rebounds b) + the (opponent_rebounds b))))
                else None))"
  unfolding calculate_all_player_stats_def formula_eqs Let_def lookup_stat_def
    opponent_possessions_int if_Inr_merge bind_error_Inr
  by (simp add: py_all_def if_Inr_merge bind_error_Inr)

lemma player_oreb_pct:
  "lookup_stat (calculate_all_player_stats b) ''oreb_pct'' =
     Inr (Some (if truthy (team_offensive_rebounds b) \<and> truthy (opponent_defensive_rebounds b)
                then if minutes_played b = 0
                        \<or> the (team_offensive_rebounds b) + the (opponent_defensive_rebounds b) = 0
                     then None
                     else Some (100 * (of_int (offensive_rebounds b) * (team_minutes b / 5))
                                / (minutes_played b
                                   * of_int (the (team_offensive_rebounds b)
                                             + the (opponent_defensive_rebounds b))))
                else None))"
  unfolding calculate_all_player_stats_def formula_eqs Let_def lookup_stat_def
    opponent_possessions_int if_Inr_merge bind_error_Inr
  by (simp add: py_all_def if_Inr_merge bind_error_Inr)

lemma player_dreb_pct:
  "lookup_stat (calculate_all_player_stats b) ''dreb_pct'' =
     Inr (Some (if truthy (team_defensive_rebounds b) \<and> truthy (opponent_offensive_rebounds b)
                then if minutes_played b = 0
                        \<or> the (team_defensive_rebounds b) + the (opponent_offensive_rebounds b) = 0
                     then None
                     else Some (100 * (of_int (defensive_rebounds b) * (team_minutes b / 5))
                                / (minutes_played b
                                   * of_int (the (team_defensive_rebounds b)
                                             + the (opponent_offensive_rebounds b))))
                else None))"
  unfolding calculate_all_player_stats_def formula_eqs Let_def lookup_stat_def
    opponent_possessions_int if_Inr_merge bind_error_Inr
  by (simp add: py_all_def if_Inr_merge bind_error_Inr)

lemma player_stl_pct:
  "lookup_stat (calculate_all_player_stats b) ''stl_pct'' =
     Inr (Some (if truthy (opponent_field_goals_attempted b)
                then if minutes_played b = 0 \<or> team_minutes b = 0
                        \<or> the (opponent_field_goals_attempted b)
                            - or_zero (opponent_offensive_rebounds b) = 0
                     then None
                     else Some (100 * of_int (steals b)
                                / (minutes_played b / (team_minutes b / 5)
                                   * of_int (the (opponent_field_goals_attempted b)
                                             - or_zero (opponent_offensive_rebounds b))))
                else None))"
  unfolding calculate_all_player_stats_def formula_eqs Let_def lookup_stat_def
    opponent_possessions_int if_Inr_merge bind_error_Inr
  by (simp add: py_all_def if_Inr_merge bind_error_Inr)

lemma player_blk_pct:
  "lookup_stat (calculate_all_player_stats b) ''blk_pct'' =
     Inr (Some (if truthy (opponent_field_goals_attempted b)
                   \<and> truthy (opponent_three_pointers_attempted b)
                then if minutes_played b = 0 \<or> team_minutes b = 0
                        \<or> the (opponent_field_goals_attempted b)
                            = the (opponent_three_pointers_attempted b)
                     then None
                     else Some (100 * of_int (blocks b)
                                / (minutes_played b / (team_minutes b / 5)
                                   * of_int (the (opponent_field_goals_attempted b)
                                             - the (opponent_three_pointers_attempted b))))
                else None))"
  unfolding calculate_all_player_stats_def formula_eqs Let_def lookup_stat_def
    opponent_possessions_int if_Inr_merge bind_error_Inr
  by (simp add: py_all_def if_Inr_merge bind_error_Inr)

text \<open>Positive team totals make the team-possession term of the usage formula non-zero.\<close>

lemma possession_sum_nonzero:
  fixes a f t :: int
  assumes "0 < a" "0 < f" "0 < t"
  shows "(of_int a + 0.44 * of_int f + of_int t :: rat) \<noteq> 0"
proof -
  have "(0::rat) < of_int a" "(0::rat) < of_int f" "(0::rat) < of_int t"
    using assms by simp_all
  then have "(0::rat) < of_int a + 0.44 * of_int f + of_int t"
    by (simp add: add_pos_pos)
  then show ?thesis by simp
qed

text \<open>
  Claim C2 says that each of the seven context-dependent player metrics is undefined
  whenever an optional field it requires is absent, and defined whenever all of them are
  present and minutes played is non-zero. The second half fails: the formulas keep guards
  of their own. A reserve with 10 of the team's 240 minutes who made 8 of the team's 35
  field goals has every field the assist percentage reads, and non-zero minutes, yet the
  estimate of teammate field goals, (10 / 48) * 35 - 8, is negative and the assist
  percentage is undefined.
\<close>

theorem assist_pct_undefined_with_context:
  "team_field_goals_made reserve_scorer = Some 35
   \<and> minutes_played reserve_scorer = 10
   \<and> team_minutes reserve_scorer = 240
   \<and> lookup_stat (calculate_all_player_stats reserve_scorer) ''ast_pct'' = Inr (Some None)"
  by (simp add: player_ast_pct truthy_def example_defs)

text \<open>
  Claim C2, amended. Each metric is undefined whenever a field of its presence check is
  absent: team field-goal attempts, free-throw attempts or turnovers for the usage
  percentage; team field goals made for the assist percentage; team or opponent total,
  offensive/defensive and defensive/offensive rebounds for the three rebound percentages;
  opponent field-goal attempts for the steal percentage, and these or opponent
  three-point attempts for the block percentage. Each metric has its documented value
  whenever minutes played is non-zero, the fields of its presence check are present and
  strictly positive (non-zero for the assist, steal and block percentages) and the guard
  of its formula passes: team minutes non-zero for the assist, steal and block
  percentages, a positive teammate field-goal estimate for the assist percentage,
  opponent field-goal attempts different from the opponent offensive rebounds (if
  present) for the steal percentage and from the opponent three-point attempts for the
  block percentage.
\<close>

theorem player_context_metrics:
  "(team_field_goals_attempted b = None \<or> team_free_throws_attempted b = None
      \<or> team_turnovers b = None
      \<longrightarrow> lookup_stat (calculate_all_player_stats b) ''usg_pct'' = Inr (Some None))
   \<and> (team_field_goals_made b = None
      \<longrightarrow> lookup_stat (calculate_all_player_stats b) ''ast_pct'' = Inr (Some None))
   \<and> (team_rebounds b = None \<or> opponent_rebounds b = None
      \<longrightarrow> lookup_stat (calculate_all_player_stats b) ''reb_pct'' = Inr (Some None))
   \<and> (team_offensive_rebounds b = None \<or> opponent_defensive_rebounds b = None
      \<longrightarrow> lookup_stat (calculate_all_player_stats b) ''oreb_pct'' = Inr (Some None))
   \<and> (team_defensive_rebounds b = None \<or> opponent_offensive_rebounds b = None
      \<longrightarrow> lookup_stat (calculate_all_player_stats b) ''dreb_pct'' = Inr (Some None))
   \<and> (opponent_field_goals_attempted b = None
      \<longrightarrow> lookup_stat (calculate_all_player_stats b) ''stl_pct'' = Inr (Some None)
          \<and> lookup_stat (calculate_all_player_stats b) ''blk_pct'' = Inr (Some None))
   \<and> (opponent_three_pointers_attempted b = None
      \<longrightarrow> lookup_stat (calculate_all_player_stats b) ''blk_pct'' = Inr (Some None))
   \<and> (minutes_played b \<noteq> 0
       \<and> team_field_goals_attempted b = Some tfga \<and> 0 < tfga
       \<and> team_free_throws_attempted b = Some tfta \<and> 0 < tfta
       \<and> team_turnovers b = Some ttov \<and> 0 < ttov
      \<longrightarrow> lookup_stat (calculate_all_player_stats b) ''usg_pct'' =
            Inr (Some (Some (100 * ((of_int (field_goals_attempted b)
                                     + 0.44 * of_int (free_throws_attempted b)
                                     + of_int (turnovers b)) * (team_minutes b / 5))
                             / (minutes_played b
                                * (of_int tfga + 0.44 * of_int tfta + of_int ttov))))))
   \<and> (minutes_played b \<noteq> 0 \<and> team_minutes b \<noteq> 0
       \<and> team_field_goals_made b = Some tfgm \<and> tfgm \<noteq> 0
       \<and> 0 < minutes_played b / (team_minutes b / 5) * of_int tfgm - of_int (field_goals_made b)
      \<longrightarrow> lookup_stat (calculate_all_player_stats b) ''ast_pct'' =
            Inr (Some (Some (100 * of_int (assists b)
                             / (minutes_played b / (team_minutes b / 5) * of_int tfgm
                                - of_int (field_goals_made b))))))
   \<and> (minutes_played b \<noteq> 0
       \<and> team_rebounds b = Some treb \<and> 0 < treb
       \<and> opponent_rebounds b = Some oreb \<and> 0 < oreb
      \<longrightarrow> lookup_stat (calculate_all_player_stats b) ''reb_pct'' =
            Inr (Some (Some (100 * (of_int (rebounds b) * (team_minutes b / 5))
                             / (minutes_played b * of_int (treb + oreb))))))
   \<and> (minutes_played b \<noteq> 0
       \<and> team_offensive_rebounds b = Some torb \<and> 0 < torb
       \<and> opponent_defensive_rebounds b = Some odrb \<and> 0 < odrb
      \<longrightarrow> lookup_stat (calculate_all_player_stats b) ''oreb_pct'' =
            Inr (Some (Some (100 * (of_int (offensive_rebounds b) * (team_minutes b / 5))
                             / (minutes_played b * of_int (torb + odrb))))))
   \<and> (minutes_played b \<noteq> 0
       \<and> team_defensive_rebounds b = Some tdrb \<and> 0 < tdrb
       \<and> opponent_offensive_rebounds b = Some oorb \<and> 0 < oorb
      \<longrightarrow> lookup_stat (calculate_all_player_stats b) ''dreb_pct'' =
            Inr (Some (Some (100 * (of_int (defensive_rebounds b) * (team_minutes b / 5))
                             / (minutes_played b * of_int (tdrb + oorb))))))
   \<and> (minutes_played b \<noteq> 0 \<and> team_minutes b \<noteq> 0
       \<and> opponent_field_goals_attempted b = Some ofga \<and> ofga \<noteq> 0
       \<and> ofga \<noteq> or_zero (opponent_offensive_rebounds b)
      \<longrightarrow> lookup_stat (calculate_all_player_stats b) ''stl_pct'' =
            Inr (Some (Some (100 * of_int (steals b)
                             / (minutes_played b / (team_minutes b / 5)
                                * of_int (ofga - or_zero (opponent_offensive_rebounds b)))))))
   \<and> (minutes_played b \<noteq> 0 \<and> team_minutes b \<noteq> 0
       \<and> opponent_field_goals_attempted b = Some ofga \<and> ofga \<noteq> 0
       \<and> opponent_three_pointers_attempted b = Some otpa \<and> otpa \<noteq> 0
       \<and> ofga \<noteq> otpa
      \<longrightarrow> lookup_stat (calculate_all_player_stats b) ''blk_pct'' =
            Inr (Some (Some (100 * of_int (blocks b)
                             / (minutes_played b / (team_minutes b / 5)
                                * of_int (ofga - otpa))))))"
proof (intro conjI impI)
  assume "minutes_played b \<noteq> 0
       \<and> team_field_goals_attempted b = Some tfga \<and> 0 < tfga
       \<and> team_free_throws_attempted b = Some tfta \<and> 0 < tfta
       \<and> team_turnovers b = Some ttov \<and> 0 < ttov"
  then show "lookup_stat (calculate_all_player_stats b) ''usg_pct'' =
            Inr (Some (Some (100 * ((of_int (field_goals_attempted b)
                                     + 0.44 * of_int (free_throws_attempted b)
                                     + of_int (turnovers b)) * (team_minutes b / 5))
                             / (minutes_played b
                                * (of_int tfga + 0.44 * of_int tfta + of_int ttov)))))"
    using possession_sum_nonzero [of tfga tfta ttov]
    by (simp add: player_usg_pct truthy_def)
qed (auto simp add: player_usg_pct player_ast_pct player_reb_pct player_oreb_pct
       player_dreb_pct player_stl_pct player_blk_pct truthy_def)

theorem player_context_metrics_witness:
  "lookup_stat (calculate_all_player_stats starter_no_context) ''usg_pct'' = Inr (Some None)
   \<and> lookup_stat (calculate_all_player_stats starter_no_context) ''ast_pct'' = Inr (Some None)
   \<and> lookup_stat (calculate_all_player_stats starter_no_context) ''reb_pct'' = Inr (Some None)
   \<and> lookup_stat (calculate_all_player_stats starter_no_context) ''oreb_pct'' = Inr (Some None)
   \<and> lookup_stat (calculate_all_player_stats starter_no_context) ''dreb_pct'' = Inr (Some None)
   \<and> lookup_stat (calculate_all_player_stats starter_no_context) ''stl_pct'' = Inr (Some None)
   \<and> lookup_stat (calculate_all_player_stats starter_no_context) ''blk_pct'' = Inr (Some None)
   \<and> lookup_stat (calculate_all_player_stats starter_full_context) ''usg_pct''
       = Inr (Some (Some (123072 / 3988.8)))
   \<and> lookup_stat (calculate_all_player_stats starter_full_context) ''ast_pct''
       = Inr (Some (Some 35))
   \<and> lookup_stat (calculate_all_player_stats starter_full_context) ''reb_pct''
       = Inr (Some (Some (38400 / 3096)))
   \<and> lookup_stat (calculate_all_player_stats starter_full_context) ''oreb_pct''
       = Inr (Some (Some (9600 / 1548)))
   \<and> lookup_stat (calculate_all_player_stats starter_full_context) ''dreb_pct''
       = Inr (Some (Some (28800 / 1548)))
   \<and> lookup_stat (calculate_all_player_stats starter_full_context) ''stl_pct''
       = Inr (Some (Some (200 / 57)))
   \<and> lookup_stat (calculate_all_player_stats starter_full_context) ''blk_pct''
       = Inr (Some (Some (100 / 42.75)))"
  using player_context_metrics [of starter_no_context]
        player_context_metrics [of starter_full_context 88 20 14 40 44 42 10 33 34 9 85 28]
  by (simp add: example_defs or_zero_def truthy_def)

text \<open>
  Claim C10 says that with opponent field-goal attempts present and non-zero and opponent
  offensive rebounds absent, the steal percentage is still computed and is not undefined.
  It is computed, with 0 in place of the absent rebounds, but the formula's own guard
  still applies: for a player who did not enter the game (zero minutes) it is undefined.
\<close>

theorem steal_pct_undefined_without_minutes:
  "opponent_field_goals_attempted did_not_play = Some 85
   \<and> opponent_offensive_rebounds did_not_play = None
   \<and> lookup_stat (calculate_all_player_stats did_not_play) ''stl_pct'' = Inr (Some None)"
  by (simp add: player_stl_pct truthy_def example_defs)

text \<open>
  Claim C10, amended. With opponent field-goal attempts present and non-zero and opponent
  offensive rebounds absent, the opponent-possession estimate passed to the steal formula
  is, after truncation, the opponent field-goal attempts themselves (the absent rebounds
  count as 0), and the steal percentage is 100 STL / ((MP / (TmMP / 5)) OppFGA) whenever
  minutes played and team minutes are non-zero, and undefined otherwise.
\<close>

theorem steal_pct_without_opponent_oreb:
  assumes "opponent_field_goals_attempted b = Some ofga" and "ofga \<noteq> 0"
    and "opponent_offensive_rebounds b = None"
  shows "py_int (estimate_possessions ofga 0 (or_zero (opponent_offensive_rebounds b)) 0) = ofga
       \<and> lookup_stat (calculate_all_player_stats b) ''stl_pct'' =
           Inr (Some (if minutes_played b = 0 \<or> team_minutes b = 0 then None
                      else Some (100 * of_int (steals b)
                                 / (minutes_played b / (team_minutes b / 5) * of_int ofga))))"
  using assms
  by (simp add: player_stl_pct opponent_possessions_int truthy_def or_zero_def)

theorem steal_pct_without_opponent_oreb_witness:
  "opponent_field_goals_attempted starter_without_opponent_oreb = Some 85
   \<and> opponent_offensive_rebounds starter_without_opponent_oreb = None
   \<and> lookup_stat (calculate_all_player_stats starter_without_opponent_oreb) ''stl_pct''
       = Inr (Some (Some (200 / 63.75)))"
  using steal_pct_without_opponent_oreb [of starter_without_opponent_oreb 85]
  by (simp add: example_defs)

end
